theory Spec2Isabelle
  imports Complex_Main "HOL-Library.Multiset" "HOL-Library.Sublist"
begin

section \<open>Values exchanged over HTTP\<close>

text \<open>
  Request and response bodies are JSON. Python strings are modelled as \<^typ>\<open>string\<close>,
  read as the UTF-8 encoding of the text (concatenation and equality of texts are
  concatenation and equality of their encodings). A Python \<^verbatim>\<open>dict\<close> obtained from a JSON
  object is an association list looked up with \<^const>\<open>map_of\<close>; the keys of a \<^verbatim>\<open>dict\<close>
  are distinct, so the entry \<^const>\<open>map_of\<close> finds is the entry of the key.
\<close>

text \<open>
  A Python \<^verbatim>\<open>float\<close> as the body parser yields it: a finite number, or one of the three
  values that are not finite (the parser reads \<^verbatim>\<open>1e400\<close> as infinity and accepts the
  literals \<^verbatim>\<open>Infinity\<close>, \<^verbatim>\<open>-Infinity\<close> and \<^verbatim>\<open>NaN\<close>).
\<close>

datatype pyfloat = Finite real | PosInf | NegInf | NaN

datatype json =
    JNull
  | JBool bool
  | JInt int
  | JFloat pyfloat
  | JStr string
  | JList "json list"
  | JObj "(string \<times> json) list"

type_synonym dict = "(string \<times> json) list"

text \<open>A DateTime column value: microseconds since the epoch.\<close>

type_synonym datetime = int


section \<open>models.py: the persistence schema\<close>

text \<open>
  \<^verbatim>\<open>class FileRecord(Base)\<close>: one row of table \<^verbatim>\<open>file_records\<close>. Column \<^verbatim>\<open>id\<close> is
  named \<open>id_col\<close> here, since \<^const>\<open>id\<close> is the identity function of HOL.
\<close>

record FileRecord =
  id_col :: int
  filename :: string
  headers :: "string list"
  rows :: "dict list"
  timestamp :: datetime
  description :: "string option"

text \<open>
  The database session, as far as the exposed operations use it: the rows of
  \<^verbatim>\<open>file_records\<close> in insertion order. Table \<^verbatim>\<open>api_keys\<close> is declared by the schema and
  touched by no operation, so it carries no state here.
\<close>

type_synonym db = "FileRecord list"

text \<open>
  \<^verbatim>\<open>id = Column(Integer, primary_key=True)\<close>: the handler never sets the id, the storage
  engine assigns it on insert. For the default \<^verbatim>\<open>sqlite:///./excel_tool.db\<close> an integer
  primary key is the row id: 1 in an empty table, otherwise one more than the largest
  id in the table.
\<close>

definition next_id :: "db \<Rightarrow> int" where
  "next_id d = (case d of [] \<Rightarrow> 1 | r # rs \<Rightarrow> fold max (map id_col rs) (id_col r) + 1)"


section \<open>main.py: request schemas\<close>

text \<open>\<^verbatim>\<open>class FileRecordCreate(BaseModel)\<close>; its fields carry the prefix \<open>record_\<close>, after
  the handler's parameter \<^verbatim>\<open>record\<close>.\<close>

record FileRecordCreate =
  record_filename :: string
  record_headers :: "string list"
  record_rows :: "dict list"
  record_description :: "string option"

text \<open>\<^verbatim>\<open>class ChatRequest(BaseModel)\<close>.\<close>

record ChatRequest =
  message :: string
  history :: "dict list"
  data_context :: string
  model :: string


section \<open>main.py: the record endpoints\<close>

text \<open>
  \<^verbatim>\<open>create_record\<close>: builds the row from the four request fields, adds and commits it,
  refreshes it and answers with its id. The id comes from the storage engine and the
  timestamp from the column default \<^verbatim>\<open>datetime.datetime.utcnow\<close>, read at the insert:
  \<open>now\<close> is that clock reading.
\<close>

definition create_record :: "FileRecordCreate \<Rightarrow> datetime \<Rightarrow> db \<Rightarrow> json \<times> db" where
  "create_record record now d =
     (let db_record = \<lparr>id_col = next_id d,
                       filename = record_filename record,
                       headers = record_headers record,
                       rows = record_rows record,
                       timestamp = now,
                       description = record_description record\<rparr>
      in (JObj [(''id'', JInt (id_col db_record)), (''status'', JStr ''saved'')],
          d @ [db_record]))"

text \<open>
  \<^verbatim>\<open>get_records\<close>: all rows, \<^verbatim>\<open>order_by(timestamp.desc())\<close>. The query leaves the order
  of rows with equal timestamps to the engine; the model keeps them in insertion order.
\<close>

definition get_records :: "db \<Rightarrow> FileRecord list" where
  "get_records d = sort_key (\<lambda>r. - timestamp r) d"

text \<open>A run of create operations, each with its request and its clock reading.\<close>

fun create_all :: "(FileRecordCreate \<times> datetime) list \<Rightarrow> db \<Rightarrow> db" where
  "create_all [] d = d"
| "create_all ((record, now) # rest) d = create_all rest (snd (create_record record now d))"


section \<open>main.py: the chat proxy\<close>

text \<open>
  The parts of \<^verbatim>\<open>google.genai\<close> the handler uses. \<^verbatim>\<open>types.Part\<close> declares \<^verbatim>\<open>text\<close> as an
  optional string and \<^verbatim>\<open>types.Content\<close> a role and a list of parts.
\<close>

datatype Part = Part (part_text: "string option")

datatype Content = Content (content_role: string) (content_parts: "Part list")

datatype Client = Client (api_key: string)

text \<open>
  The exceptions that can reach the handler's \<^verbatim>\<open>except Exception\<close>: the \<^verbatim>\<open>KeyError\<close> of a
  dictionary lookup, and whatever the library raises, known by its \<^verbatim>\<open>str()\<close>.
  \<^verbatim>\<open>str(KeyError(k))\<close> is the key in single quotes.
\<close>

datatype py_exception = KeyError string | LibraryError string

fun str_exception :: "py_exception \<Rightarrow> string" where
  "str_exception (KeyError k) = [CHR 0x27] @ k @ [CHR 0x27]"
| "str_exception (LibraryError msg) = msg"

text \<open>The arguments of one \<^verbatim>\<open>client.models.generate_content\<close> call.\<close>

record api_call =
  model_arg :: string
  contents_arg :: "Content list"
  system_instruction :: string

text \<open>
  The library and the remote service are outside the program and are parameters of it:
  the message of the validation error \<^verbatim>\<open>types.Part\<close> raises for a text that is neither a
  string nor \<^verbatim>\<open>None\<close>, and, for a call through a client, either the exception it raises
  or the \<^verbatim>\<open>text\<close> of the response (which may be \<^verbatim>\<open>None\<close>).
\<close>

record sdk =
  validation_message :: "json \<Rightarrow> string"
  generate_content :: "Client \<Rightarrow> api_call \<Rightarrow> py_exception + string option"

definition Part_init :: "sdk \<Rightarrow> json \<Rightarrow> py_exception + Part" where
  "Part_init lib t =
     (case t of
        JStr s \<Rightarrow> Inr (Part (Some s))
      | JNull \<Rightarrow> Inr (Part None)
      | _ \<Rightarrow> Inl (LibraryError (validation_message lib t)))"

text \<open>
  Lines 15 to 18: the module-level \<^verbatim>\<open>client\<close>. \<^verbatim>\<open>os.getenv\<close> gives \<^verbatim>\<open>None\<close> for an unset
  variable, and the empty string is false in \<^verbatim>\<open>if GEMINI_API_KEY\<close>.
\<close>

definition client_at_startup :: "string option \<Rightarrow> Client option" where
  "client_at_startup GEMINI_API_KEY =
     (case GEMINI_API_KEY of
        None \<Rightarrow> None
      | Some k \<Rightarrow> if k = [] then None else Some (Client k))"

text \<open>What an endpoint answers.\<close>

datatype response =
    JSONResponse json
  | RecordsResponse "FileRecord list"
  | HTTPException nat string
  | RequestValidationError
  | InternalServerError

fun status_code :: "response \<Rightarrow> nat" where
  "status_code (JSONResponse _) = 200"
| "status_code (RecordsResponse _) = 200"
| "status_code (HTTPException code _) = code"
| "status_code RequestValidationError = 422"
| "status_code InternalServerError = 500"

text \<open>
  What \<^verbatim>\<open>chat_with_gemini\<close> does: its answer, the calls it made to the generation API in
  order, and the lines it printed.
\<close>

record chat_result =
  response :: response
  calls :: "api_call list"
  printed :: "string list"

text \<open>
  Lines 83 to 86, the loop over \<^verbatim>\<open>req.history\<close> with the list \<^verbatim>\<open>contents\<close> built so far.
  \<^verbatim>\<open>m["role"]\<close> is looked up first, then \<^verbatim>\<open>m["text"]\<close>; a missing key raises \<^verbatim>\<open>KeyError\<close>.
\<close>

fun history_loop :: "sdk \<Rightarrow> dict list \<Rightarrow> Content list \<Rightarrow> py_exception + Content list" where
  "history_loop lib [] contents = Inr contents"
| "history_loop lib (m # ms) contents =
     (case map_of m ''role'' of
        None \<Rightarrow> Inl (KeyError ''role'')
      | Some r \<Rightarrow>
          (let role = (if r = JStr ''user'' then ''user'' else ''model'') in
           case map_of m ''text'' of
             None \<Rightarrow> Inl (KeyError ''text'')
           | Some t \<Rightarrow>
               (case Part_init lib t of
                  Inl e \<Rightarrow> Inl e
                | Inr p \<Rightarrow> history_loop lib ms (contents @ [Content role [p]]))))"

text \<open>The two labels of the prompt and the system instruction, as UTF-8.\<close>

definition data_context_label :: string where
  "data_context_label =
    [CHR 0xE8, CHR 0xB3, CHR 0x87, CHR 0xE6, CHR 0x96, CHR 0x99, CHR 0xE4, CHR 0xB8, CHR 0x8A,
     CHR 0xE4, CHR 0xB8, CHR 0x8B, CHR 0xE6, CHR 0x96, CHR 0x87, CHR 0xEF, CHR 0xBC, CHR 0x9A]"

definition question_label :: string where
  "question_label =
    [CHR 0xE4, CHR 0xBD, CHR 0xBF, CHR 0xE7, CHR 0x94, CHR 0xA8, CHR 0xE8, CHR 0x80, CHR 0x85,
     CHR 0xE5, CHR 0x95, CHR 0x8F, CHR 0xE9, CHR 0xA1, CHR 0x8C, CHR 0xEF, CHR 0xBC, CHR 0x9A]"

definition SYSTEM_INSTRUCTION :: string where
  "SYSTEM_INSTRUCTION =
    [CHR 0xE4, CHR 0xBD, CHR 0xA0, CHR 0xE6, CHR 0x98, CHR 0xAF, CHR 0xE4, CHR 0xB8, CHR 0x80,
     CHR 0xE5, CHR 0x80, CHR 0x8B, CHR 0xE5, CHR 0xB0, CHR 0x88, CHR 0xE6, CHR 0xA5, CHR 0xAD,
     CHR 0xE7, CHR 0x9A, CHR 0x84, CHR 0xE8, CHR 0xB3, CHR 0x87, CHR 0xE6, CHR 0x96, CHR 0x99,
     CHR 0xE5, CHR 0x88, CHR 0x86, CHR 0xE6, CHR 0x9E, CHR 0x90, CHR 0xE5, CHR 0x8A, CHR 0xA9,
     CHR 0xE7, CHR 0x90, CHR 0x86, CHR 0xE3, CHR 0x80, CHR 0x82, CHR 0xE8, CHR 0xAB, CHR 0x8B,
     CHR 0xE6, CHR 0xA0, CHR 0xB9, CHR 0xE6, CHR 0x93, CHR 0x9A, CHR 0xE4, CHR 0xBD, CHR 0xBF,
     CHR 0xE7, CHR 0x94, CHR 0xA8, CHR 0xE8, CHR 0x80, CHR 0x85, CHR 0xE6, CHR 0x8F, CHR 0x90,
     CHR 0xE4, CHR 0xBE, CHR 0x9B, CHR 0xE7, CHR 0x9A, CHR 0x84, CHR 0xE8, CHR 0xB3, CHR 0x87,
     CHR 0xE6, CHR 0x96, CHR 0x99, CHR 0xE4, CHR 0xB8, CHR 0x8A, CHR 0xE4, CHR 0xB8, CHR 0x8B,
     CHR 0xE6, CHR 0x96, CHR 0x87, CHR 0xEF, CHR 0xBC, CHR 0x8C, CHR 0xE4, CHR 0xBB, CHR 0xA5,
     CHR 0xE7, CHR 0xB9, CHR 0x81, CHR 0xE9, CHR 0xAB, CHR 0x94, CHR 0xE4, CHR 0xB8, CHR 0xAD,
     CHR 0xE6, CHR 0x96, CHR 0x87, CHR 0xE5, CHR 0x9B, CHR 0x9E, CHR 0xE7, CHR 0xAD, CHR 0x94,
     CHR 0xE5, CHR 0x95, CHR 0x8F, CHR 0xE9, CHR 0xA1, CHR 0x8C, CHR 0xE4, CHR 0xB8, CHR 0xA6,
     CHR 0xE6, CHR 0x8F, CHR 0x90, CHR 0xE4, CHR 0xBE, CHR 0x9B, CHR 0xE6, CHR 0x9C, CHR 0x89,
     CHR 0xE7, CHR 0x94, CHR 0xA8, CHR 0xE7, CHR 0x9A, CHR 0x84, CHR 0xE6, CHR 0xB4, CHR 0x9E,
     CHR 0xE5, CHR 0xAF, CHR 0x9F, CHR 0xE3, CHR 0x80, CHR 0x82]"

text \<open>Line 89, the f-string: label, newline, data context, two newlines, label, message.\<close>

definition prompt :: "ChatRequest \<Rightarrow> string" where
  "prompt req =
     data_context_label @ [CHR 0x0A] @ data_context req @ [CHR 0x0A, CHR 0x0A]
       @ question_label @ message req"

text \<open>Lines 102 to 104, the handler of \<^verbatim>\<open>except Exception as e\<close>, after the calls \<open>cs\<close>.\<close>

definition on_exception :: "py_exception \<Rightarrow> api_call list \<Rightarrow> chat_result" where
  "on_exception e cs =
     \<lparr>response = HTTPException 500 (str_exception e),
      calls = cs,
      printed = [''Gemini Error: '' @ str_exception e]\<rparr>"

text \<open>\<^verbatim>\<open>chat_with_gemini\<close>, with the module-level \<^verbatim>\<open>client\<close> as its first argument.\<close>

definition chat_with_gemini :: "Client option \<Rightarrow> sdk \<Rightarrow> ChatRequest \<Rightarrow> chat_result" where
  "chat_with_gemini client lib req =
     (case client of
        None \<Rightarrow>
          \<lparr>response = HTTPException 500 ''Server Gemini API Key not configured'',
           calls = [], printed = []\<rparr>
      | Some c \<Rightarrow>
          (case history_loop lib (history req) [] of
             Inl e \<Rightarrow> on_exception e []
           | Inr contents \<Rightarrow>
               (let contents = contents @ [Content ''user'' [Part (Some (prompt req))]];
                    call = \<lparr>model_arg = model req, contents_arg = contents,
                            system_instruction = SYSTEM_INSTRUCTION\<rparr>
                in case generate_content lib c call of
                     Inl e \<Rightarrow> on_exception e [call]
                   | Inr t \<Rightarrow>
                       \<lparr>response = JSONResponse
                          (JObj [(''text'', case t of None \<Rightarrow> JNull | Some s \<Rightarrow> JStr s)]),
                        calls = [call], printed = []\<rparr>)))"


section \<open>main.py: the HTTP surface\<close>

text \<open>
  The framework validates a request body against the declared schema before it calls
  the handler, and answers 422 itself when the body does not fit. The body is the
  parsed JSON value. A \<^verbatim>\<open>str\<close> field takes a JSON string only, a \<^verbatim>\<open>List[...]\<close> field an
  array whose items all fit, a \<^verbatim>\<open>dict\<close> any JSON object; an \<^verbatim>\<open>Optional[str] = None\<close> field
  may be absent or null; a field with a default may be absent; other keys are ignored.
\<close>

fun as_str :: "json \<Rightarrow> string option" where
  "as_str (JStr s) = Some s"
| "as_str _ = None"

fun as_dict :: "json \<Rightarrow> dict option" where
  "as_dict (JObj d) = Some d"
| "as_dict _ = None"

fun as_list_of :: "(json \<Rightarrow> 'a option) \<Rightarrow> json \<Rightarrow> 'a list option" where
  "as_list_of item (JList xs) = those (map item xs)"
| "as_list_of item _ = None"

fun as_optional_str :: "json option \<Rightarrow> string option option" where
  "as_optional_str None = Some None"
| "as_optional_str (Some JNull) = Some None"
| "as_optional_str (Some (JStr s)) = Some (Some s)"
| "as_optional_str (Some _) = None"

fun validate_FileRecordCreate :: "json \<Rightarrow> FileRecordCreate option" where
  "validate_FileRecordCreate (JObj d) =
     (case (Option.bind (map_of d ''filename'') as_str,
            Option.bind (map_of d ''headers'') (as_list_of as_str),
            Option.bind (map_of d ''rows'') (as_list_of as_dict),
            as_optional_str (map_of d ''description'')) of
        (Some f, Some h, Some r, Some desc) \<Rightarrow>
          Some \<lparr>record_filename = f, record_headers = h, record_rows = r,
                record_description = desc\<rparr>
      | _ \<Rightarrow> None)"
| "validate_FileRecordCreate _ = None"

fun validate_ChatRequest :: "json \<Rightarrow> ChatRequest option" where
  "validate_ChatRequest (JObj d) =
     (case (Option.bind (map_of d ''message'') as_str,
            Option.bind (map_of d ''history'') (as_list_of as_dict),
            Option.bind (map_of d ''data_context'') as_str,
            (case map_of d ''model'' of None \<Rightarrow> Some ''gemini-2.0-flash'' | Some j \<Rightarrow> as_str j)) of
        (Some msg, Some h, Some ctx, Some mdl) \<Rightarrow>
          Some \<lparr>message = msg, history = h, data_context = ctx, model = mdl\<rparr>
      | _ \<Rightarrow> None)"
| "validate_ChatRequest _ = None"

text \<open>
  \<^verbatim>\<open>get_records\<close> returns the rows and the framework encodes them as the response body.
  The encoder refuses a float that is not finite, wherever it stands in a value; the
  exception is handled by nobody and the framework answers 500. In a row only the
  \<^verbatim>\<open>rows\<close> column can hold a float.
\<close>

fun is_finite :: "pyfloat \<Rightarrow> bool" where
  "is_finite (Finite x) = True"
| "is_finite _ = False"

fun json_compliant :: "json \<Rightarrow> bool" where
  "json_compliant (JFloat x) = is_finite x"
| "json_compliant (JList xs) = list_all json_compliant xs"
| "json_compliant (JObj d) = list_all (\<lambda>kv. json_compliant (snd kv)) d"
| "json_compliant _ = True"

definition encodable :: "FileRecord \<Rightarrow> bool" where
  "encodable r = json_compliant (JList (map JObj (rows r)))"

text \<open>The four routes the application declares, each with its body.\<close>

datatype request = GET_root | POST_records json | GET_records | POST_chat json

text \<open>The process: the client made at startup and the library it talks through.\<close>

record app =
  client :: "Client option"
  lib :: sdk

text \<open>One request handled: the answer, the store afterwards, and the chat effects.\<close>

record outcome =
  answer :: response
  store :: db
  api_calls :: "api_call list"
  stdout :: "string list"

definition read_root :: json where
  "read_root = JObj [(''status'', JStr ''ok''),
                     (''message'', JStr ''Backend Proxy (New SDK) is active'')]"

fun handle :: "app \<Rightarrow> datetime \<Rightarrow> request \<Rightarrow> db \<Rightarrow> outcome" where
  "handle a now GET_root d =
     \<lparr>answer = JSONResponse read_root, store = d, api_calls = [], stdout = []\<rparr>"
| "handle a now (POST_records body) d =
     (case validate_FileRecordCreate body of
        None \<Rightarrow> \<lparr>answer = RequestValidationError, store = d, api_calls = [], stdout = []\<rparr>
      | Some record \<Rightarrow>
          (let (js, d') = create_record record now d
           in \<lparr>answer = JSONResponse js, store = d', api_calls = [], stdout = []\<rparr>))"
| "handle a now GET_records d =
     (let records = get_records d
      in \<lparr>answer = (if list_all encodable records then RecordsResponse records
                    else InternalServerError),
          store = d, api_calls = [], stdout = []\<rparr>)"
| "handle a now (POST_chat body) d =
     (case validate_ChatRequest body of
        None \<Rightarrow> \<lparr>answer = RequestValidationError, store = d, api_calls = [], stdout = []\<rparr>
      | Some req \<Rightarrow>
          (let res = chat_with_gemini (client a) (lib a) req
           in \<lparr>answer = response res, store = d, api_calls = calls res,
               stdout = printed res\<rparr>))"

text \<open>A run of requests, each with the clock reading of its arrival.\<close>

fun serve :: "app \<Rightarrow> (datetime \<times> request) list \<Rightarrow> db \<Rightarrow> db" where
  "serve a [] d = d"
| "serve a ((now, rq) # rest) d = serve a rest (store (handle a now rq d))"


section \<open>Sample inputs\<close>

text \<open>Concrete requests and environments at which the theorems below are instantiated.\<close>

definition sample_record :: "string \<Rightarrow> FileRecordCreate" where
  "sample_record name =
     \<lparr>record_filename = name, record_headers = [''x'', ''y''],
      record_rows = [[(''x'', JInt 1), (''y'', JInt 2)]], record_description = None\<rparr>"

definition sample_record_body :: "(string \<times> json) list" where
  "sample_record_body =
     [(''filename'', JStr ''a.csv''),
      (''headers'', JList [JStr ''x'', JStr ''y'']),
      (''rows'', JList [JObj [(''x'', JInt 1), (''y'', JInt 2)]]),
      (''description'', JNull)]"


definition loose_record_body :: "(string \<times> json) list" where
  "loose_record_body =
     [(''filename'', JStr ''b.csv''),
      (''headers'', JList [JStr ''x'']),
      (''rows'', JList [JObj [(''z'', JBool True)], JObj []]),
      (''description'', JStr ''rows unrelated to headers'')]"

definition ill_typed_record_body :: "(string \<times> json) list" where
  "ill_typed_record_body =
     [(''filename'', JInt 3), (''headers'', JList []), (''rows'', JList [])]"

definition sample_row :: FileRecord where
  "sample_row = \<lparr>id_col = 1, filename = ''old.csv'', headers = [''h''], rows = [],
                  timestamp = 2, description = Some ''kept''\<rparr>"

definition stub_sdk :: sdk where
  "stub_sdk = \<lparr>validation_message = (\<lambda>t. ''Input should be a valid string''),
               generate_content = (\<lambda>c call. Inr (Some ''ok''))\<rparr>"

definition failing_sdk :: sdk where
  "failing_sdk = \<lparr>validation_message = (\<lambda>t. ''Input should be a valid string''),
                  generate_content = (\<lambda>c call. Inl (LibraryError ''429 RESOURCE_EXHAUSTED''))\<rparr>"

definition sample_chat :: "dict list \<Rightarrow> ChatRequest" where
  "sample_chat h = \<lparr>message = ''What was the peak month?'', history = h,
                    data_context = ''Q1 sales'', model = ''gemini-2.0-flash''\<rparr>"

definition sample_chat_body :: "json list \<Rightarrow> json" where
  "sample_chat_body h =
     JObj [(''message'', JStr ''What was the peak month?''), (''history'', JList h),
           (''data_context'', JStr ''Q1 sales'')]"

definition unconfigured_app :: app where
  "unconfigured_app = \<lparr>client = client_at_startup None, lib = stub_sdk\<rparr>"

definition configured_app :: app where
  "configured_app = \<lparr>client = client_at_startup (Some ''key''), lib = stub_sdk\<rparr>"


section \<open>The store: auxiliary facts\<close>



lemma create_all_append: "create_all (xs @ ys) d = create_all ys (create_all xs d)"
  by (induction xs arbitrary: d) auto

lemma fold_max_ge: "(a::int) \<le> fold max xs a"
  by (induction xs arbitrary: a) (auto intro: order_trans [OF max.cobounded2])

lemma fold_max_mem: "x \<in> set xs \<Longrightarrow> (x::int) \<le> fold max xs a"
  by (induction xs arbitrary: a) (auto intro: order_trans [OF max.cobounded1 fold_max_ge])

lemma next_id_greater:
  assumes "r \<in> set d"
  shows "id_col r < next_id d"
proof (cases d)
  case Nil
  with assms show ?thesis by simp
next
  case (Cons a rs)
  have "id_col r \<le> fold max (map id_col rs) (id_col a)"
  proof (cases "r = a")
    case True
    then show ?thesis by (simp add: fold_max_ge)
  next
    case False
    with assms Cons have "id_col r \<in> set (map id_col rs)" by auto
    then show ?thesis by (rule fold_max_mem)
  qed
  then show ?thesis by (simp add: next_id_def Cons)
qed

lemma create_all_extends: "\<exists>new. create_all reqs d = d @ new \<and> length new = length reqs"
proof (induction reqs arbitrary: d)
  case Nil
  then show ?case by simp
next
  case (Cons a reqs)
  obtain rc ts where a: "a = (rc, ts)" by (cases a)
  from Cons.IH [of "snd (create_record rc ts d)"]
  show ?case by (auto simp: a create_record_def Let_def)
qed

lemma ids_increasing_step:
  "sorted_wrt (<) (map id_col d) \<Longrightarrow> sorted_wrt (<) (map id_col (snd (create_record record now d)))"
  by (auto simp: create_record_def Let_def sorted_wrt_append next_id_greater)

lemma ids_increasing_run:
  "sorted_wrt (<) (map id_col d) \<Longrightarrow> sorted_wrt (<) (map id_col (create_all reqs d))"
proof (induction reqs arbitrary: d)
  case Nil
  then show ?case by simp
next
  case (Cons a reqs)
  obtain rc ts where a: "a = (rc, ts)" by (cases a)
  show ?case unfolding a create_all.simps
    by (rule Cons.IH) (rule ids_increasing_step [OF Cons.prems])
qed

lemma serve_extends: "take (length d) (serve a rqs d) = d"
proof (induction rqs arbitrary: d)
  case Nil
  then show ?case by simp
next
  case (Cons x rqs)
  obtain ts rq where x: "x = (ts, rq)" by (cases x)
  have step: "\<exists>new. store (handle a ts rq d) = d @ new"
    by (cases rq) (auto simp: create_record_def Let_def split: option.splits)
  then obtain new where new: "store (handle a ts rq d) = d @ new" ..
  have "take (length d) (serve a rqs (d @ new)) = take (length d) (take (length (d @ new)) (serve a rqs (d @ new)))"
    by (simp add: min_def)
  also have "\<dots> = take (length d) (d @ new)"
    by (simp only: Cons.IH)
  finally show ?case by (simp add: x new)
qed


section \<open>Body validation: auxiliary facts\<close>

lemma those_map_as_str: "those (map (as_str \<circ> JStr) hs) = Some hs"
  by (induction hs) auto

lemma those_map_as_dict: "those (map (as_dict \<circ> JObj) rs) = Some rs"
  by (induction rs) auto

lemma validate_FileRecordCreate_accepts:
  assumes "map_of b ''filename'' = Some (JStr f)"
    and "map_of b ''headers'' = Some (JList (map JStr hs))"
    and "map_of b ''rows'' = Some (JList (map JObj rs))"
    and "map_of b ''description'' = map_option JStr desc"
  shows "validate_FileRecordCreate (JObj b) =
           Some \<lparr>record_filename = f, record_headers = hs, record_rows = rs,
                 record_description = desc\<rparr>"
  using assms by (cases desc) (simp_all add: those_map_as_str those_map_as_dict)



lemma as_str_iff: "as_str j = Some s \<longleftrightarrow> j = JStr s"
  by (cases j) auto

lemma as_list_of_as_str_iff: "as_list_of as_str j = Some hs \<longleftrightarrow> j = JList (map JStr hs)"
proof (cases j)
  case (JList xs)
  have "those (map as_str xs) = Some hs \<longleftrightarrow> xs = map JStr hs"
  proof (induction xs arbitrary: hs)
    case Nil
    then show ?case by auto
  next
    case (Cons x xs)
    show ?case
      by (cases x; cases hs) (auto simp: Cons.IH split: option.splits)
  qed
  with JList show ?thesis by simp
qed simp_all

lemma as_list_of_as_dict_iff: "as_list_of as_dict j = Some rs \<longleftrightarrow> j = JList (map JObj rs)"
proof (cases j)
  case (JList xs)
  have "those (map as_dict xs) = Some rs \<longleftrightarrow> xs = map JObj rs"
  proof (induction xs arbitrary: rs)
    case Nil
    then show ?case by auto
  next
    case (Cons x xs)
    show ?case
      by (cases x; cases rs) (auto simp: Cons.IH split: option.splits)
  qed
  with JList show ?thesis by simp
qed simp_all

lemma validate_FileRecordCreate_Some:
  assumes "validate_FileRecordCreate (JObj b) = Some rc"
  shows "map_of b ''filename'' = Some (JStr (record_filename rc))
       \<and> map_of b ''headers'' = Some (JList (map JStr (record_headers rc)))
       \<and> map_of b ''rows'' = Some (JList (map JObj (record_rows rc)))"
proof -
  from assms obtain jf jh jr where
    "map_of b ''filename'' = Some jf" "as_str jf = Some (record_filename rc)"
    "map_of b ''headers'' = Some jh" "as_list_of as_str jh = Some (record_headers rc)"
    "map_of b ''rows'' = Some jr" "as_list_of as_dict jr = Some (record_rows rc)"
    by (auto split: option.splits Option.bind_splits)
  then show ?thesis
    by (simp add: as_str_iff as_list_of_as_str_iff as_list_of_as_dict_iff)
qed


section \<open>The chat proxy: auxiliary facts\<close>

lemma Part_init_Inr:
  "Part_init l t = Inr p \<longleftrightarrow> (\<exists>s. t = JStr s \<and> p = Part (Some s)) \<or> (t = JNull \<and> p = Part None)"
  by (cases t) (auto simp: Part_init_def)

lemma history_loop_sound:
  assumes "history_loop l ms acc = Inr cs"
  shows "\<exists>us. cs = acc @ us
           \<and> list_all2 (\<lambda>m u. \<exists>r t. map_of m ''role'' = Some r \<and> map_of m ''text'' = Some t
                 \<and> content_role u = (if r = JStr ''user'' then ''user'' else ''model'')
                 \<and> ((\<exists>s. t = JStr s \<and> content_parts u = [Part (Some s)])
                      \<or> (t = JNull \<and> content_parts u = [Part None]))) ms us"
  using assms
proof (induction ms arbitrary: acc)
  case Nil
  then show ?case by simp
next
  case (Cons m ms)
  from Cons.prems obtain r t p where
    m: "map_of m ''role'' = Some r" "map_of m ''text'' = Some t" "Part_init l t = Inr p"
    and rest: "history_loop l ms (acc @ [Content (if r = JStr ''user'' then ''user'' else ''model'') [p]]) = Inr cs"
    by (auto simp: Let_def split: option.splits sum.splits)
  let ?u = "Content (if r = JStr ''user'' then ''user'' else ''model'') [p]"
  from Cons.IH [OF rest] obtain us where
    us: "cs = (acc @ [?u]) @ us"
      "list_all2 (\<lambda>m u. \<exists>r t. map_of m ''role'' = Some r \<and> map_of m ''text'' = Some t
                 \<and> content_role u = (if r = JStr ''user'' then ''user'' else ''model'')
                 \<and> ((\<exists>s. t = JStr s \<and> content_parts u = [Part (Some s)])
                      \<or> (t = JNull \<and> content_parts u = [Part None]))) ms us"
    by blast
  have "\<exists>r t. map_of m ''role'' = Some r \<and> map_of m ''text'' = Some t
                 \<and> content_role ?u = (if r = JStr ''user'' then ''user'' else ''model'')
                 \<and> ((\<exists>s. t = JStr s \<and> content_parts ?u = [Part (Some s)])
                      \<or> (t = JNull \<and> content_parts ?u = [Part None]))"
    using m by (auto simp: Part_init_Inr)
  with us(2) have "list_all2 (\<lambda>m u. \<exists>r t. map_of m ''role'' = Some r \<and> map_of m ''text'' = Some t
                 \<and> content_role u = (if r = JStr ''user'' then ''user'' else ''model'')
                 \<and> ((\<exists>s. t = JStr s \<and> content_parts u = [Part (Some s)])
                      \<or> (t = JNull \<and> content_parts u = [Part None]))) (m # ms) (?u # us)"
    by (simp only: list_all2_Cons simp_thms)
  moreover have "cs = acc @ (?u # us)" using us(1) by simp
  ultimately show ?case by blast
qed

lemma history_loop_complete:
  assumes "\<forall>m \<in> set ms. \<exists>r t. map_of m ''role'' = Some r \<and> map_of m ''text'' = Some t
             \<and> (t = JNull \<or> (\<exists>s. t = JStr s))"
  shows "\<exists>cs. history_loop l ms acc = Inr cs"
  using assms
proof (induction ms arbitrary: acc)
  case Nil
  then show ?case by simp
next
  case (Cons m ms)
  from Cons.prems obtain r t where m: "map_of m ''role'' = Some r" "map_of m ''text'' = Some t"
    "t = JNull \<or> (\<exists>s. t = JStr s)"
    by auto
  then obtain p where p: "Part_init l t = Inr p"
    by (auto simp: Part_init_def)
  from Cons.prems have "\<forall>m \<in> set ms. \<exists>r t. map_of m ''role'' = Some r \<and> map_of m ''text'' = Some t
             \<and> (t = JNull \<or> (\<exists>s. t = JStr s))"
    by simp
  from Cons.IH [OF this] show ?case
    by (simp add: m p Let_def)
qed

lemma history_loop_incomplete:
  assumes "\<not> (\<forall>m \<in> set ms. \<exists>r t. map_of m ''role'' = Some r \<and> map_of m ''text'' = Some t
             \<and> (t = JNull \<or> (\<exists>s. t = JStr s)))"
  shows "\<exists>e. history_loop l ms acc = Inl e"
proof (cases "history_loop l ms acc")
  case (Inl e)
  then show ?thesis by blast
next
  case (Inr cs)
  from history_loop_sound [OF this] obtain us where
    "list_all2 (\<lambda>m u. \<exists>r t. map_of m ''role'' = Some r \<and> map_of m ''text'' = Some t
                 \<and> content_role u = (if r = JStr ''user'' then ''user'' else ''model'')
                 \<and> ((\<exists>s. t = JStr s \<and> content_parts u = [Part (Some s)])
                      \<or> (t = JNull \<and> content_parts u = [Part None]))) ms us"
    by blast
  then have "\<forall>m \<in> set ms. \<exists>r t. map_of m ''role'' = Some r \<and> map_of m ''text'' = Some t
             \<and> (t = JNull \<or> (\<exists>s. t = JStr s))"
    by (induction rule: list_all2_induct) auto
  with assms show ?thesis by contradiction
qed

lemma history_loop_missing:
  assumes "m \<in> set ms" and "map_of m ''role'' = None \<or> map_of m ''text'' = None"
  shows "\<exists>e. history_loop l ms acc = Inl e"
  using assms
proof (induction ms arbitrary: acc)
  case Nil
  then show ?case by simp
next
  case (Cons x ms)
  show ?case
  proof (cases "x = m")
    case True
    with Cons.prems(2) show ?thesis
      by (auto simp: Let_def split: option.splits sum.splits)
  next
    case False
    with Cons.prems have "m \<in> set ms" by simp
    from Cons.IH [OF this Cons.prems(2)] show ?thesis
      by (auto simp: Let_def split: option.splits sum.splits)
  qed
qed

lemma history_loop_key_error:
  assumes "history_loop l ms acc = Inl e"
    and "\<forall>m \<in> set ms. \<forall>t. map_of m ''text'' = Some t \<longrightarrow> (\<exists>s. t = JStr s)"
  shows "e = KeyError ''role'' \<or> e = KeyError ''text''"
  using assms
proof (induction ms arbitrary: acc)
  case Nil
  then show ?case by simp
next
  case (Cons x ms)
  show ?case
  proof (cases "map_of x ''role''")
    case None
    with Cons.prems(1) show ?thesis by simp
  next
    case (Some r)
    show ?thesis
    proof (cases "map_of x ''text''")
      case None
      with Some Cons.prems(1) show ?thesis by (simp add: Let_def)
    next
      case (Some t)
      with Cons.prems(2) obtain s where "t = JStr s" by auto
      with Some \<open>map_of x ''role'' = Some r\<close> Cons.prems(1)
      have "history_loop l ms (acc @ [Content (if r = JStr ''user'' then ''user'' else ''model'') [Part (Some s)]]) = Inl e"
        by (simp add: Let_def Part_init_def)
      moreover from Cons.prems(2) have "\<forall>m \<in> set ms. \<forall>t. map_of m ''text'' = Some t \<longrightarrow> (\<exists>s. t = JStr s)"
        by simp
      ultimately show ?thesis by (rule Cons.IH)
    qed
  qed
qed

lemma calls_chat_cases:
  "calls (chat_with_gemini cl l req) = [] \<or>
   (\<exists>c units. cl = Some c \<and> history_loop l (history req) [] = Inr units
      \<and> calls (chat_with_gemini cl l req) =
          [\<lparr>model_arg = model req,
            contents_arg = units @ [Content ''user'' [Part (Some (prompt req))]],
            system_instruction = SYSTEM_INSTRUCTION\<rparr>])"
  by (auto simp: chat_with_gemini_def on_exception_def Let_def split: option.splits sum.splits)


section \<open>The claims\<close>

text \<open>
  Claim C1. Every sequence of contents handed to the generation API ends with the
  synthesized unit: its role is "user" and its text is the data-context label, a
  newline, the raw data context, a blank line, the question label and the raw message,
  in that order. When a client is configured and the history loop finishes with the
  units \<open>units\<close>, exactly that sequence, \<open>units\<close> followed by the synthesized unit,
  goes out.
\<close>

theorem prompt_assembly:
  "(\<forall>call \<in> set (calls (chat_with_gemini cl l req)).
      contents_arg call \<noteq> [] \<and>
      last (contents_arg call) =
        Content ''user'' [Part (Some (data_context_label @ [CHR 0x0A] @ data_context req
                                       @ [CHR 0x0A, CHR 0x0A] @ question_label @ message req))])
   \<and> (cl = Some c \<and> history_loop l (history req) [] = Inr units \<longrightarrow>
        map contents_arg (calls (chat_with_gemini cl l req)) =
          [units @ [Content ''user'' [Part (Some (data_context_label @ [CHR 0x0A] @ data_context req
                                       @ [CHR 0x0A, CHR 0x0A] @ question_label @ message req))]]])"
proof (intro conjI ballI impI)
  fix call
  assume "call \<in> set (calls (chat_with_gemini cl l req))"
  with calls_chat_cases [of cl l req]
  obtain us where "contents_arg call = us @ [Content ''user'' [Part (Some (prompt req))]]"
    by auto
  then show "contents_arg call \<noteq> []"
    and "last (contents_arg call) =
        Content ''user'' [Part (Some (data_context_label @ [CHR 0x0A] @ data_context req
                                       @ [CHR 0x0A, CHR 0x0A] @ question_label @ message req))]"
    by (simp_all add: prompt_def)
next
  assume "cl = Some c \<and> history_loop l (history req) [] = Inr units"
  then show "map contents_arg (calls (chat_with_gemini cl l req)) =
          [units @ [Content ''user'' [Part (Some (data_context_label @ [CHR 0x0A] @ data_context req
                                       @ [CHR 0x0A, CHR 0x0A] @ question_label @ message req))]]]"
    by (simp add: chat_with_gemini_def on_exception_def Let_def prompt_def split: sum.splits)
qed

theorem prompt_assembly_witness:
  "map contents_arg (calls (chat_with_gemini (Some (Client ''key'')) stub_sdk (sample_chat []))) =
     [[Content ''user'' [Part (Some (data_context_label @ [CHR 0x0A] @ ''Q1 sales''
                                       @ [CHR 0x0A, CHR 0x0A] @ question_label @ ''What was the peak month?''))]]]"
  using prompt_assembly [of "Some (Client ''key'')" stub_sdk "sample_chat []" "Client ''key''" "[]"]
  by (simp add: sample_chat_def)

text \<open>
  Claim C2, as amended. Whatever sequence of contents goes out has one unit per history
  entry, in the original order, with role "user" when the entry's role equals "user"
  and "model" for any other role value, and the entry's text as its single part (a
  part without text when the text is null), followed by exactly one synthesized final
  user unit. With a client configured, exactly one such sequence goes out when every
  history entry has a \<^verbatim>\<open>role\<close> and a \<^verbatim>\<open>text\<close> that is a string or null; for any other
  history none goes out and the answer has status 500.
\<close>

theorem history_mapping:
  "(\<forall>call \<in> set (calls (chat_with_gemini cl l req)).
      length (contents_arg call) = length (history req) + 1
      \<and> list_all2 (\<lambda>m u. \<exists>r t. map_of m ''role'' = Some r \<and> map_of m ''text'' = Some t
                 \<and> content_role u = (if r = JStr ''user'' then ''user'' else ''model'')
                 \<and> ((\<exists>s. t = JStr s \<and> content_parts u = [Part (Some s)])
                      \<or> (t = JNull \<and> content_parts u = [Part None])))
            (history req) (butlast (contents_arg call))
      \<and> last (contents_arg call) = Content ''user'' [Part (Some (prompt req))])
   \<and> ((\<forall>m \<in> set (history req1). \<exists>r t. map_of m ''role'' = Some r \<and> map_of m ''text'' = Some t
             \<and> (t = JNull \<or> (\<exists>s. t = JStr s)))
      \<longrightarrow> (\<exists>cs. map contents_arg (calls (chat_with_gemini (Some c) l req1)) = [cs]
            \<and> length cs = length (history req1) + 1
            \<and> list_all2 (\<lambda>m u. \<exists>r t. map_of m ''role'' = Some r \<and> map_of m ''text'' = Some t
                 \<and> content_role u = (if r = JStr ''user'' then ''user'' else ''model'')
                 \<and> ((\<exists>s. t = JStr s \<and> content_parts u = [Part (Some s)])
                      \<or> (t = JNull \<and> content_parts u = [Part None])))
                  (history req1) (butlast cs)
            \<and> last cs = Content ''user'' [Part (Some (prompt req1))]))
   \<and> (\<not> (\<forall>m \<in> set (history req2). \<exists>r t. map_of m ''role'' = Some r \<and> map_of m ''text'' = Some t
             \<and> (t = JNull \<or> (\<exists>s. t = JStr s)))
      \<longrightarrow> calls (chat_with_gemini (Some c) l req2) = []
          \<and> status_code (response (chat_with_gemini (Some c) l req2)) = 500)"
proof -
  have sent: "length (contents_arg call) = length (history q) + 1
      \<and> list_all2 (\<lambda>m u. \<exists>r t. map_of m ''role'' = Some r \<and> map_of m ''text'' = Some t
                 \<and> content_role u = (if r = JStr ''user'' then ''user'' else ''model'')
                 \<and> ((\<exists>s. t = JStr s \<and> content_parts u = [Part (Some s)])
                      \<or> (t = JNull \<and> content_parts u = [Part None])))
            (history q) (butlast (contents_arg call))
      \<and> last (contents_arg call) = Content ''user'' [Part (Some (prompt q))]"
    if "call \<in> set (calls (chat_with_gemini k l q))" for k q call
  proof -
    from that calls_chat_cases [of k l q] obtain units where
      u: "history_loop l (history q) [] = Inr units"
      and call: "contents_arg call = units @ [Content ''user'' [Part (Some (prompt q))]]"
      by auto
    from history_loop_sound [OF u] have
      us: "list_all2 (\<lambda>m u. \<exists>r t. map_of m ''role'' = Some r \<and> map_of m ''text'' = Some t
                 \<and> content_role u = (if r = JStr ''user'' then ''user'' else ''model'')
                 \<and> ((\<exists>s. t = JStr s \<and> content_parts u = [Part (Some s)])
                      \<or> (t = JNull \<and> content_parts u = [Part None])))
            (history q) units"
      by simp
    have "length (contents_arg call) = length (history q) + 1"
      using list_all2_lengthD [OF us] by (simp add: call)
    moreover have "list_all2 (\<lambda>m u. \<exists>r t. map_of m ''role'' = Some r \<and> map_of m ''text'' = Some t
                 \<and> content_role u = (if r = JStr ''user'' then ''user'' else ''model'')
                 \<and> ((\<exists>s. t = JStr s \<and> content_parts u = [Part (Some s)])
                      \<or> (t = JNull \<and> content_parts u = [Part None])))
            (history q) (butlast (contents_arg call))"
      using us by (simp only: call butlast_snoc)
    moreover have "last (contents_arg call) = Content ''user'' [Part (Some (prompt q))]"
      by (simp add: call)
    ultimately show ?thesis by (simp only: simp_thms)
  qed
  have one: "\<exists>cs. map contents_arg (calls (chat_with_gemini (Some c) l req1)) = [cs]
            \<and> length cs = length (history req1) + 1
            \<and> list_all2 (\<lambda>m u. \<exists>r t. map_of m ''role'' = Some r \<and> map_of m ''text'' = Some t
                 \<and> content_role u = (if r = JStr ''user'' then ''user'' else ''model'')
                 \<and> ((\<exists>s. t = JStr s \<and> content_parts u = [Part (Some s)])
                      \<or> (t = JNull \<and> content_parts u = [Part None])))
                  (history req1) (butlast cs)
            \<and> last cs = Content ''user'' [Part (Some (prompt req1))]"
    if wf: "(\<forall>m \<in> set (history req1). \<exists>r t. map_of m ''role'' = Some r \<and> map_of m ''text'' = Some t
             \<and> (t = JNull \<or> (\<exists>s. t = JStr s)))"
  proof -
    from history_loop_complete [OF wf, of l "[]"] obtain units where
      "history_loop l (history req1) [] = Inr units" by blast
    then have "length (calls (chat_with_gemini (Some c) l req1)) = 1"
      by (simp add: chat_with_gemini_def on_exception_def Let_def split: sum.splits)
    then obtain call where call: "calls (chat_with_gemini (Some c) l req1) = [call]"
      by (cases "calls (chat_with_gemini (Some c) l req1)") auto
    then have "call \<in> set (calls (chat_with_gemini (Some c) l req1))"
      by simp
    from sent [OF this] call show ?thesis
      by (intro exI [of _ "contents_arg call"]) simp
  qed
  have none: "calls (chat_with_gemini (Some c) l req2) = []
          \<and> status_code (response (chat_with_gemini (Some c) l req2)) = 500"
    if bad: "\<not> (\<forall>m \<in> set (history req2). \<exists>r t. map_of m ''role'' = Some r \<and> map_of m ''text'' = Some t
             \<and> (t = JNull \<or> (\<exists>s. t = JStr s)))"
  proof -
    from history_loop_incomplete [OF bad, of l "[]"] obtain e where
      "history_loop l (history req2) [] = Inl e" by blast
    then show ?thesis
      by (simp add: chat_with_gemini_def on_exception_def)
  qed
  from sent one none show ?thesis
    by blast
qed

theorem history_mapping_witness:
  "map contents_arg (calls (chat_with_gemini (Some (Client ''key'')) stub_sdk
      (sample_chat [[(''role'', JStr ''user''), (''text'', JStr ''hello'')],
                    [(''role'', JStr ''assistant''), (''text'', JStr ''hi'')],
                    [(''role'', JInt 7), (''text'', JNull)]]))) =
     [[Content ''user'' [Part (Some ''hello'')], Content ''model'' [Part (Some ''hi'')],
       Content ''model'' [Part None],
       Content ''user'' [Part (Some (prompt (sample_chat
                   [[(''role'', JStr ''user''), (''text'', JStr ''hello'')],
                    [(''role'', JStr ''assistant''), (''text'', JStr ''hi'')],
                    [(''role'', JInt 7), (''text'', JNull)]])))]]]
   \<and> calls (chat_with_gemini (Some (Client ''key'')) stub_sdk
        (sample_chat [[(''role'', JStr ''user'')]])) = []"
  using history_mapping [where cl = "Some (Client ''key'')" and c = "Client ''key''"
      and l = stub_sdk
      and req = "sample_chat [[(''role'', JStr ''user''), (''text'', JStr ''hello'')],
                    [(''role'', JStr ''assistant''), (''text'', JStr ''hi'')],
                    [(''role'', JInt 7), (''text'', JNull)]]"
      and ?req1.0 = "sample_chat [[(''role'', JStr ''user''), (''text'', JStr ''hello'')],
                    [(''role'', JStr ''assistant''), (''text'', JStr ''hi'')],
                    [(''role'', JInt 7), (''text'', JNull)]]"
      and ?req2.0 = "sample_chat [[(''role'', JStr ''user'')]]"]
  by (simp add: sample_chat_def chat_with_gemini_def stub_sdk_def Part_init_def Let_def
      on_exception_def)

text \<open>
  The claim as stated, for every chat request, fails: an entry with a role and the
  text 5 is mapped to no unit; no sequence goes out and the answer has status 500.
\<close>

theorem history_mapping_counterexample:
  "calls (chat_with_gemini (Some (Client ''key'')) stub_sdk
     (sample_chat [[(''role'', JStr ''user''), (''text'', JInt 5)]])) = []
   \<and> status_code (response (chat_with_gemini (Some (Client ''key'')) stub_sdk
        (sample_chat [[(''role'', JStr ''user''), (''text'', JInt 5)]]))) = 500"
  by (simp add: sample_chat_def chat_with_gemini_def stub_sdk_def Part_init_def Let_def
      on_exception_def)

text \<open>
  Claim C3, as amended. With no credential at process start (the variable unset or
  empty), every \<^verbatim>\<open>/chat\<close> call whose body fits the declared \<^verbatim>\<open>ChatRequest\<close> schema is
  answered with status 500 and the fixed message, whatever its history holds, with no
  call to the generation API and nothing printed; a body that does not fit the schema
  is rejected with status 422 before the handler runs; the record endpoints answer as
  they do with a client configured.
\<close>

theorem misconfiguration:
  assumes "key = None \<or> key = Some []"
  shows "(validate_ChatRequest body = Some req \<longrightarrow>
            handle \<lparr>client = client_at_startup key, lib = l\<rparr> now (POST_chat body) d =
              \<lparr>answer = HTTPException 500 ''Server Gemini API Key not configured'', store = d,
               api_calls = [], stdout = []\<rparr>)
       \<and> (validate_ChatRequest body' = None \<longrightarrow>
            handle \<lparr>client = client_at_startup key, lib = l\<rparr> now (POST_chat body') d =
              \<lparr>answer = RequestValidationError, store = d, api_calls = [], stdout = []\<rparr>)
       \<and> handle \<lparr>client = client_at_startup key, lib = l\<rparr> now (POST_records rb) d =
           handle \<lparr>client = Some c, lib = l\<rparr> now (POST_records rb) d
       \<and> handle \<lparr>client = client_at_startup key, lib = l\<rparr> now GET_records d =
           handle \<lparr>client = Some c, lib = l\<rparr> now GET_records d"
proof -
  from assms have "client_at_startup key = None"
    by (auto simp: client_at_startup_def)
  then show ?thesis
    unfolding handle.simps by (simp add: chat_with_gemini_def)
qed

theorem misconfiguration_witness:
  "handle unconfigured_app 0 (POST_chat (sample_chat_body [JObj []])) [] =
     \<lparr>answer = HTTPException 500 ''Server Gemini API Key not configured'', store = [],
      api_calls = [], stdout = []\<rparr>
   \<and> handle unconfigured_app 0 (POST_chat (JObj [])) [] =
     \<lparr>answer = RequestValidationError, store = [], api_calls = [], stdout = []\<rparr>"
  using misconfiguration [where key = None and body = "sample_chat_body [JObj []]"
      and req = "sample_chat [[]]" and body' = "JObj []" and l = stub_sdk and now = 0
      and d = "[]"]
  by (simp add: unconfigured_app_def sample_chat_body_def sample_chat_def)

text \<open>
  The claim as stated, for any request body, fails: with no credential configured the
  empty JSON object sent to \<^verbatim>\<open>/chat\<close> is answered with the validation error, status 422,
  not with status 500.
\<close>

theorem misconfiguration_counterexample:
  "answer (handle \<lparr>client = client_at_startup None, lib = stub_sdk\<rparr> 0 (POST_chat (JObj [])) [])
     = RequestValidationError
   \<and> status_code (answer (handle \<lparr>client = client_at_startup None, lib = stub_sdk\<rparr> 0
        (POST_chat (JObj [])) [])) \<noteq> 500"
  by simp

text \<open>
  Claim C4. When a call to the generation API raises an exception, the handler answers
  with status 500 whose detail is \<^verbatim>\<open>str\<close> of that exception, the call that raised is the
  only call made (no retry), the answer is the error alone (no partial result), and
  the error is printed.
\<close>

theorem upstream_failure:
  assumes "call \<in> set (calls (chat_with_gemini (Some c) l req))"
    and "generate_content l c call = Inl e"
  shows "response (chat_with_gemini (Some c) l req) = HTTPException 500 (str_exception e)
       \<and> calls (chat_with_gemini (Some c) l req) = [call]
       \<and> printed (chat_with_gemini (Some c) l req) = [''Gemini Error: '' @ str_exception e]"
proof -
  from calls_chat_cases [of "Some c" l req] assms(1)
  obtain units where u: "history_loop l (history req) [] = Inr units"
    and cs: "calls (chat_with_gemini (Some c) l req) =
          [\<lparr>model_arg = model req,
            contents_arg = units @ [Content ''user'' [Part (Some (prompt req))]],
            system_instruction = SYSTEM_INSTRUCTION\<rparr>]"
    by auto
  from assms(1) cs have call: "call = \<lparr>model_arg = model req,
            contents_arg = units @ [Content ''user'' [Part (Some (prompt req))]],
            system_instruction = SYSTEM_INSTRUCTION\<rparr>"
    by simp
  show ?thesis
    using assms(2) unfolding call
    by (simp add: chat_with_gemini_def u on_exception_def Let_def)
qed

theorem upstream_failure_witness:
  "response (chat_with_gemini (Some (Client ''key'')) failing_sdk (sample_chat []))
     = HTTPException 500 ''429 RESOURCE_EXHAUSTED''
   \<and> length (calls (chat_with_gemini (Some (Client ''key'')) failing_sdk (sample_chat []))) = 1"
  using upstream_failure [where c = "Client ''key''" and l = failing_sdk
      and req = "sample_chat []" and e = "LibraryError ''429 RESOURCE_EXHAUSTED''"
      and call = "\<lparr>model_arg = ''gemini-2.0-flash'',
                    contents_arg = [Content ''user'' [Part (Some (prompt (sample_chat [])))]],
                    system_instruction = SYSTEM_INSTRUCTION\<rparr>"]
  by (simp add: chat_with_gemini_def failing_sdk_def sample_chat_def on_exception_def)






text \<open>
  Claim C7. With a client configured, a \<^verbatim>\<open>/chat\<close> request in which some history entry lacks
  the \<^verbatim>\<open>role\<close> or the \<^verbatim>\<open>text\<close> key makes the history loop raise; the exception is handled
  only by the handler's general \<^verbatim>\<open>except\<close>, so the answer is status 500 with \<^verbatim>\<open>str\<close> of the
  exception as detail, not the validation error, and no call to the generation API is
  made. When every text that is present is a string, the exception is the \<^verbatim>\<open>KeyError\<close> of
  one of the two keys.
\<close>

theorem missing_history_key:
  assumes "validate_ChatRequest body = Some req"
    and "m \<in> set (history req)"
    and "map_of m ''role'' = None \<or> map_of m ''text'' = None"
  shows "\<exists>e. history_loop l (history req) [] = Inl e
          \<and> handle \<lparr>client = Some c, lib = l\<rparr> now (POST_chat body) d =
              \<lparr>answer = HTTPException 500 (str_exception e), store = d, api_calls = [],
               stdout = [''Gemini Error: '' @ str_exception e]\<rparr>
          \<and> ((\<forall>m' \<in> set (history req). \<forall>t. map_of m' ''text'' = Some t \<longrightarrow> (\<exists>s. t = JStr s))
               \<longrightarrow> e = KeyError ''role'' \<or> e = KeyError ''text'')"
proof -
  from history_loop_missing [OF assms(2,3)] obtain e where
    e: "history_loop l (history req) [] = Inl e" by blast
  have "handle \<lparr>client = Some c, lib = l\<rparr> now (POST_chat body) d =
              \<lparr>answer = HTTPException 500 (str_exception e), store = d, api_calls = [],
               stdout = [''Gemini Error: '' @ str_exception e]\<rparr>"
    unfolding handle.simps assms(1)
    by (simp add: chat_with_gemini_def e on_exception_def)
  moreover have "(\<forall>m' \<in> set (history req). \<forall>t. map_of m' ''text'' = Some t \<longrightarrow> (\<exists>s. t = JStr s))
               \<longrightarrow> e = KeyError ''role'' \<or> e = KeyError ''text''"
    using history_loop_key_error [OF e] by blast
  ultimately show ?thesis using e by blast
qed

theorem missing_history_key_witness:
  "handle configured_app 0
     (POST_chat (sample_chat_body [JObj [(''role'', JStr ''user'')]])) [sample_row] =
     \<lparr>answer = HTTPException 500 [CHR 0x27, CHR ''t'', CHR ''e'', CHR ''x'', CHR ''t'', CHR 0x27],
      store = [sample_row], api_calls = [],
      stdout = [''Gemini Error: '' @ [CHR 0x27, CHR ''t'', CHR ''e'', CHR ''x'', CHR ''t'', CHR 0x27]]\<rparr>"
  using missing_history_key [where body = "sample_chat_body [JObj [(''role'', JStr ''user'')]]"
      and req = "sample_chat [[(''role'', JStr ''user'')]]" and m = "[(''role'', JStr ''user'')]"
      and l = stub_sdk and c = "Client ''key''" and now = 0 and d = "[sample_row]"]
  by (simp add: configured_app_def client_at_startup_def sample_chat_body_def sample_chat_def
      chat_with_gemini_def on_exception_def)

text \<open>
  Claim C8. In the store reached from the empty store by any run of create operations,
  the ids strictly increase along the insertion order, there is one record per create,
  and creates that follow leave the records created so far, their ids included, as
  they are.
\<close>

theorem ids_monotonic:
  "sorted_wrt (<) (map id_col (create_all reqs []))
   \<and> length (create_all reqs []) = length reqs
   \<and> take (length reqs) (create_all (reqs @ later) []) = create_all reqs []"
proof -
  obtain new where new: "create_all reqs [] = [] @ new" "length new = length reqs"
    using create_all_extends [of reqs "[]"] by blast
  obtain new' where new': "create_all later (create_all reqs []) = create_all reqs [] @ new'"
    using create_all_extends [of later "create_all reqs []"] by blast
  have "sorted_wrt (<) (map id_col (create_all reqs []))"
    by (rule ids_increasing_run) simp
  moreover have "length (create_all reqs []) = length reqs"
    using new by simp
  moreover have "take (length reqs) (create_all (reqs @ later) []) = create_all reqs []"
    using new new' by (simp add: create_all_append)
  ultimately show ?thesis by simp
qed

theorem ids_monotonic_witness:
  "map id_col (create_all [(sample_record ''a.csv'', 5), (sample_record ''b.csv'', 3),
                           (sample_record ''c.csv'', 9)] []) = [1, 2, 3]
   \<and> sorted_wrt (<) (map id_col (create_all [(sample_record ''a.csv'', 5),
        (sample_record ''b.csv'', 3), (sample_record ''c.csv'', 9)] []))"
  using ids_monotonic [where reqs = "[(sample_record ''a.csv'', 5), (sample_record ''b.csv'', 3),
      (sample_record ''c.csv'', 9)]" and later = "[]"]
  by (simp add: create_record_def next_id_def)

text \<open>
  Claim C9. The application declares four routes. Whatever requests are served, the
  records already in the store stay where they are, with every field unchanged: the
  health check, the list operation and the chat operation leave the store as it is,
  and the create operation appends at most one record; no route updates or deletes.
\<close>

theorem existing_records_unchanged:
  "take (length d) (serve a rqs d) = d
   \<and> store (handle a now GET_root d) = d
   \<and> store (handle a now GET_records d) = d
   \<and> store (handle a now (POST_chat body) d) = d
   \<and> (\<exists>new. store (handle a now (POST_records body) d) = d @ new \<and> length new \<le> 1)"
proof -
  have "store (handle a now (POST_chat body) d) = d"
    by (simp add: Let_def split: option.splits)
  moreover have "\<exists>new. store (handle a now (POST_records body) d) = d @ new \<and> length new \<le> 1"
    by (auto simp: create_record_def Let_def split: option.splits)
  ultimately show ?thesis
    by (simp add: serve_extends Let_def)
qed

theorem existing_records_unchanged_witness:
  "serve configured_app
     [(5, POST_records (JObj sample_record_body)), (6, GET_records),
      (7, POST_chat (sample_chat_body [])), (8, GET_root),
      (9, POST_records (JObj ill_typed_record_body))] [sample_row] =
     [sample_row,
      \<lparr>id_col = 2, filename = ''a.csv'', headers = [''x'', ''y''],
       rows = [[(''x'', JInt 1), (''y'', JInt 2)]], timestamp = 5, description = None\<rparr>]"
  using existing_records_unchanged [where d = "[sample_row]" and a = configured_app
      and rqs = "[(5, POST_records (JObj sample_record_body)), (6, GET_records),
      (7, POST_chat (sample_chat_body [])), (8, GET_root),
      (9, POST_records (JObj ill_typed_record_body))]"]
  by (simp add: sample_record_body_def ill_typed_record_body_def sample_chat_body_def
      sample_row_def create_record_def next_id_def Let_def)

text \<open>
  Claim C10. A create request whose filename is not a string, whose headers is not a
  list of strings, or whose rows is not a list of objects is rejected by body
  validation with status 422 and the store is left as it is. A request whose three
  fields have those types is accepted and stored whatever the row objects hold: no
  condition is put on their keys, on their values or on their relation to the headers.
\<close>

theorem create_validates_types:
  "((\<nexists>f. map_of b ''filename'' = Some (JStr f))
      \<or> (\<nexists>hs. map_of b ''headers'' = Some (JList (map JStr hs)))
      \<or> (\<nexists>rs. map_of b ''rows'' = Some (JList (map JObj rs)))
    \<longrightarrow> handle a now (POST_records (JObj b)) d =
          \<lparr>answer = RequestValidationError, store = d, api_calls = [], stdout = []\<rparr>
        \<and> status_code (answer (handle a now (POST_records (JObj b)) d)) = 422)
   \<and> (map_of b' ''filename'' = Some (JStr f)
      \<and> map_of b' ''headers'' = Some (JList (map JStr hs))
      \<and> map_of b' ''rows'' = Some (JList (map JObj rs))
      \<and> map_of b' ''description'' = map_option JStr desc
    \<longrightarrow> status_code (answer (handle a now (POST_records (JObj b')) d)) = 200
        \<and> store (handle a now (POST_records (JObj b')) d) =
            d @ [\<lparr>id_col = next_id d, filename = f, headers = hs, rows = rs,
                  timestamp = now, description = desc\<rparr>])"
proof (intro conjI impI)
  assume bad: "(\<nexists>f. map_of b ''filename'' = Some (JStr f))
      \<or> (\<nexists>hs. map_of b ''headers'' = Some (JList (map JStr hs)))
      \<or> (\<nexists>rs. map_of b ''rows'' = Some (JList (map JObj rs)))"
  have "validate_FileRecordCreate (JObj b) = None"
  proof (cases "validate_FileRecordCreate (JObj b)")
    case (Some rc)
    from validate_FileRecordCreate_Some [OF this] bad show ?thesis by blast
  qed simp
  then show r: "handle a now (POST_records (JObj b)) d =
          \<lparr>answer = RequestValidationError, store = d, api_calls = [], stdout = []\<rparr>"
    unfolding handle.simps by simp
  show "status_code (answer (handle a now (POST_records (JObj b)) d)) = 422"
    unfolding r by simp
next
  assume ok: "map_of b' ''filename'' = Some (JStr f)
      \<and> map_of b' ''headers'' = Some (JList (map JStr hs))
      \<and> map_of b' ''rows'' = Some (JList (map JObj rs))
      \<and> map_of b' ''description'' = map_option JStr desc"
  then have v: "validate_FileRecordCreate (JObj b') =
           Some \<lparr>record_filename = f, record_headers = hs, record_rows = rs,
                 record_description = desc\<rparr>"
    by (intro validate_FileRecordCreate_accepts) simp_all
  show "status_code (answer (handle a now (POST_records (JObj b')) d)) = 200"
    and "store (handle a now (POST_records (JObj b')) d) =
            d @ [\<lparr>id_col = next_id d, filename = f, headers = hs, rows = rs,
                  timestamp = now, description = desc\<rparr>]"
    unfolding handle.simps v by (simp_all add: create_record_def)
qed

theorem create_validates_types_witness:
  "handle unconfigured_app 5 (POST_records (JObj ill_typed_record_body)) [sample_row] =
     \<lparr>answer = RequestValidationError, store = [sample_row], api_calls = [], stdout = []\<rparr>
   \<and> store (handle unconfigured_app 5 (POST_records (JObj loose_record_body)) [sample_row]) =
     [sample_row,
      \<lparr>id_col = 2, filename = ''b.csv'', headers = [''x''],
       rows = [[(''z'', JBool True)], []], timestamp = 5,
       description = Some ''rows unrelated to headers''\<rparr>]"
  using create_validates_types [where b = ill_typed_record_body and b' = loose_record_body
      and f = "''b.csv''" and hs = "[''x'']" and rs = "[[(''z'', JBool True)], []]"
      and desc = "Some ''rows unrelated to headers''" and a = unconfigured_app and now = 5
      and d = "[sample_row]"]
  by (simp add: ill_typed_record_body_def loose_record_body_def sample_row_def
      create_record_def next_id_def)

end
